theory Spec2Isabelle
  imports Complex_Main
begin

section \<open>Values that cross the bridge\<close>

text \<open>
  A plugin call carries a JavaScript object. The typed accessors of the call
  (\<open>getString\<close>, \<open>getBool\<close>, \<open>getInt\<close>, \<open>getFloat\<close>) belong to the bridge
  library: each returns the value under the key when it has the requested type, and
  nothing otherwise; the two-argument forms fall back to the given default.
\<close>

text \<open>
  A floating-point number (a JavaScript number, a Swift \<open>Float\<close> or \<open>CGFloat\<close>) is a
  finite value, an infinity or NaN. Finite values are kept exact: rounding to the
  width of the format is left out. Comparison, absolute value and division by a
  positive finite constant are those of IEEE 754: every comparison with NaN is false,
  and NaN goes through the arithmetic.
\<close>

datatype FloatingPoint = Finite real | PlusInfinity | MinusInfinity | NaN

fun fp_less :: "FloatingPoint \<Rightarrow> FloatingPoint \<Rightarrow> bool" where
  "fp_less (Finite a) (Finite b) = (a < b)"
| "fp_less (Finite a) PlusInfinity = True"
| "fp_less MinusInfinity (Finite b) = True"
| "fp_less MinusInfinity PlusInfinity = True"
| "fp_less _ _ = False"

fun fp_abs :: "FloatingPoint \<Rightarrow> FloatingPoint" where
  "fp_abs (Finite a) = Finite \<bar>a\<bar>"
| "fp_abs PlusInfinity = PlusInfinity"
| "fp_abs MinusInfinity = PlusInfinity"
| "fp_abs NaN = NaN"

fun fp_divide :: "FloatingPoint \<Rightarrow> real \<Rightarrow> FloatingPoint" where
  "fp_divide (Finite a) d = Finite (a / d)"
| "fp_divide PlusInfinity d = PlusInfinity"
| "fp_divide MinusInfinity d = MinusInfinity"
| "fp_divide NaN d = NaN"

text \<open>
  The free function \<open>min(x, y)\<close> of the Swift standard library returns
  \<open>y < x ? y : x\<close>.
\<close>

definition swift_min :: "FloatingPoint \<Rightarrow> FloatingPoint \<Rightarrow> FloatingPoint" where
  "swift_min x y = (if fp_less y x then y else x)"


datatype JSValue = JSNull | JSBool bool | JSNumber FloatingPoint | JSString string

type_synonym JSObject = "string \<rightharpoonup> JSValue"

record CAPPluginCall =
  options :: JSObject

definition getString :: "CAPPluginCall \<Rightarrow> string \<Rightarrow> string option" where
  "getString c k = (case options c k of Some (JSString s) \<Rightarrow> Some s | _ \<Rightarrow> None)"

definition getBool :: "CAPPluginCall \<Rightarrow> string \<Rightarrow> bool option" where
  "getBool c k = (case options c k of Some (JSBool b) \<Rightarrow> Some b | _ \<Rightarrow> None)"

definition getFloat :: "CAPPluginCall \<Rightarrow> string \<Rightarrow> FloatingPoint option" where
  "getFloat c k = (case options c k of Some (JSNumber x) \<Rightarrow> Some x | _ \<Rightarrow> None)"

text \<open>\<open>getInt\<close> gives a number that is a whole number of 64 bits, and nothing otherwise.\<close>

definition getInt :: "CAPPluginCall \<Rightarrow> string \<Rightarrow> int option" where
  "getInt c k =
     (case options c k of
        Some (JSNumber (Finite r)) \<Rightarrow>
          if of_int \<lfloor>r\<rfloor> = r \<and> - 9223372036854775808 \<le> \<lfloor>r\<rfloor> \<and> \<lfloor>r\<rfloor> \<le> 9223372036854775807
          then Some \<lfloor>r\<rfloor> else None
      | _ \<Rightarrow> None)"

definition getString_or :: "CAPPluginCall \<Rightarrow> string \<Rightarrow> string \<Rightarrow> string" where
  "getString_or c k d = (case getString c k of Some v \<Rightarrow> v | None \<Rightarrow> d)"

definition getBool_or :: "CAPPluginCall \<Rightarrow> string \<Rightarrow> bool \<Rightarrow> bool" where
  "getBool_or c k d = (case getBool c k of Some v \<Rightarrow> v | None \<Rightarrow> d)"

definition getFloat_or :: "CAPPluginCall \<Rightarrow> string \<Rightarrow> FloatingPoint \<Rightarrow> FloatingPoint" where
  "getFloat_or c k d = (case getFloat c k of Some v \<Rightarrow> v | None \<Rightarrow> d)"

section \<open>Camera settings\<close>

text \<open>
  \<open>CameraSettings\<close>, \<open>CameraDirection\<close> and \<open>CameraResultType\<close> are declared outside
  the files at hand. The record holds the fields \<open>cameraSettings(from:)\<close> assigns.
  The direction has the two cases front and rear; the raw strings of the cases, the
  result types and the values of a freshly created \<open>CameraSettings()\<close> are parameters,
  collected in \<open>declarations\<close>. The quality is a floating-point number; width and
  height are converted from whole numbers, so they are finite and kept as reals.
\<close>

datatype CameraDirection = rear | front

record 'rt CameraSettings =
  jpegQuality :: FloatingPoint
  direction :: CameraDirection
  resultType :: 'rt
  width :: real
  height :: real
  shouldResize :: bool
  shouldCorrectOrientation :: bool
  forcePortraitOrientation :: bool
  mirrorFrontCameraResult :: bool

record 'rt declarations =
  directionRawValue :: "CameraDirection \<Rightarrow> string"
  resultTypeRawValue :: "'rt \<Rightarrow> string"
  resultTypeOfRawValue :: "string \<Rightarrow> 'rt option"
  base64 :: 'rt
  newCameraSettings :: "'rt CameraSettings"

text \<open>The initialiser \<open>CameraDirection(rawValue:)\<close> a string-backed enum gets.\<close>

definition CameraDirectionOfRawValue :: "'rt declarations \<Rightarrow> string \<Rightarrow> CameraDirection option" where
  "CameraDirectionOfRawValue D s =
     (if s = directionRawValue D rear then Some rear
      else if s = directionRawValue D front then Some front
      else None)"

definition defaultDirection :: CameraDirection where
  "defaultDirection = rear"

definition defaultResultType :: "'rt declarations \<Rightarrow> 'rt" where
  "defaultResultType D = base64 D"

definition cameraSettings :: "'rt declarations \<Rightarrow> CAPPluginCall \<Rightarrow> 'rt CameraSettings" where
  "cameraSettings D c =
     (let settings = newCameraSettings D;
          settings = settings\<lparr>jpegQuality :=
            swift_min (fp_abs (fp_divide (getFloat_or c ''quality'' (Finite 100)) 100)) (Finite 1)\<rparr>;
          settings = settings\<lparr>direction :=
            (case CameraDirectionOfRawValue D
                    (getString_or c ''direction'' (directionRawValue D defaultDirection)) of
               Some d \<Rightarrow> d | None \<Rightarrow> defaultDirection)\<rparr>;
          settings = settings\<lparr>resultType :=
            (case resultTypeOfRawValue D
                    (getString_or c ''resultType'' (resultTypeRawValue D (defaultResultType D))) of
               Some t \<Rightarrow> t | None \<Rightarrow> defaultResultType D)\<rparr>;
          settings = settings\<lparr>width := of_int (case getInt c ''width'' of Some n \<Rightarrow> n | None \<Rightarrow> 0)\<rparr>;
          settings = settings\<lparr>height := of_int (case getInt c ''height'' of Some n \<Rightarrow> n | None \<Rightarrow> 0)\<rparr>;
          settings = (if 0 < width settings \<or> 0 < height settings
                      then settings\<lparr>shouldResize := True\<rparr> else settings);
          settings = settings\<lparr>shouldCorrectOrientation := getBool_or c ''correctOrientation'' True\<rparr>;
          settings = settings\<lparr>forcePortraitOrientation := getBool_or c ''forcePortraitOrientation'' True\<rparr>;
          settings = settings\<lparr>mirrorFrontCameraResult := getBool_or c ''mirrorFrontCameraResult'' True\<rparr>
      in settings)"


section \<open>The native plugin\<close>

text \<open>
  The plugin object keeps the call of the last \<open>startPreview\<close>, the camera object
  created by \<open>load\<close> (absent when \<open>load\<close> returned early) and the bridge. The class
  of the camera object is declared outside the files at hand, so its state is a type
  parameter and each of its methods is a parameter of the plugin method that calls it:
  a throwing method returns what it threw, if anything, and the camera's next state.
  What a plugin method does to the outside is the list of its effects, in order.
\<close>

datatype AVAuthorizationStatus = notDetermined | restricted | denied | authorized

record CAPBridge =
  isSimEnvironment :: bool

record 'pc PreviewCameraPlugin =
  call :: "CAPPluginCall option"
  previewCamera :: "'pc option"
  bridge :: "CAPBridge option"

text \<open>
  A thrown \<open>PreviewCameraError\<close> is known to the plugin by its message only; any
  other error is caught by the last \<open>catch\<close>.
\<close>

datatype thrown = PreviewCameraError string | OtherError

datatype effect =
    Log string
  | Alert string string
  | Resolve JSObject
  | Reject string
  | RequestAccess
  | HideBackground
  | ShowBackground

text \<open>
  The environment of a call: the cases of \<open>CameraPropertyListKeys\<close> (declared
  elsewhere), each with its raw key and its message, the application's information
  dictionary and the authorization status of the video device.
\<close>

record environment =
  allCases :: "(string \<times> string) list"
  infoDictionary :: "(string \<rightharpoonup> string) option"
  authorizationStatus :: AVAuthorizationStatus

fun firstMissing :: "(string \<times> string) list \<Rightarrow> (string \<rightharpoonup> string) \<Rightarrow> string option" where
  "firstMissing [] dict = None"
| "firstMissing ((rawValue, missingMessage) # keys) dict =
     (if dict rawValue = None then Some missingMessage else firstMissing keys dict)"

definition checkUsageDescriptions :: "environment \<Rightarrow> string option" where
  "checkUsageDescriptions env =
     (case infoDictionary env of
        Some dict \<Rightarrow> firstMissing (allCases env) dict
      | None \<Rightarrow> None)"

text \<open>\<open>bridge?.alert(title, message)\<close>: nothing happens without a bridge.\<close>

definition alert :: "CAPBridge option \<Rightarrow> string \<Rightarrow> string \<Rightarrow> effect list" where
  "alert b title msg = (case b of Some _ \<Rightarrow> [Alert title msg] | None \<Rightarrow> [])"

definition echo :: "(string \<Rightarrow> string) \<Rightarrow> 'pc PreviewCameraPlugin \<Rightarrow> CAPPluginCall
    \<Rightarrow> 'pc PreviewCameraPlugin \<times> effect list" where
  "echo camera_echo self c =
     (let v = (case getString c ''value'' of Some s \<Rightarrow> s | None \<Rightarrow> '''') in
      case previewCamera self of
        Some implementation \<Rightarrow> (self, [Resolve [''value'' \<mapsto> JSString (camera_echo v)]])
      | None \<Rightarrow> (self, []))"

text \<open>
  \<open>startPreview\<close> up to the point where it returns: either the call is rejected, or
  access is requested and the call is left to the completion handler.
\<close>

definition startPreview :: "environment \<Rightarrow> 'pc PreviewCameraPlugin \<Rightarrow> CAPPluginCall
    \<Rightarrow> 'pc PreviewCameraPlugin \<times> effect list" where
  "startPreview env self c =
     (let self = self\<lparr>call := Some c\<rparr> in
      case checkUsageDescriptions env of
        Some missingUsageDescription \<Rightarrow>
          (self, [Log missingUsageDescription, Reject missingUsageDescription]
                 @ alert (bridge self) ''Camera Error''
                     ''Missing required usage description. See console for more information'')
      | None \<Rightarrow>
          if (case bridge self of Some b \<Rightarrow> isSimEnvironment b | None \<Rightarrow> False) then
            (self, [Log ''Camera not available in simulator'']
                   @ alert (bridge self) ''Camera Error'' ''Camera not available in Simulator''
                   @ [Reject ''Camera not available while running in Simulator''])
          else if authorizationStatus env = restricted \<or> authorizationStatus env = denied then
            (self, [Reject ''User denied access to camera''])
          else (self, [RequestAccess]))"

text \<open>
  The completion handler of the access request, run with the answer, while the plugin
  object is alive. Without a camera object the optional chain calls nothing and throws
  nothing. When access is not granted the handler does nothing.
\<close>

definition requestAccess_completion ::
  "('rt CameraSettings \<Rightarrow> 'pc \<Rightarrow> thrown option \<times> 'pc) \<Rightarrow> 'rt declarations
    \<Rightarrow> 'pc PreviewCameraPlugin \<Rightarrow> CAPPluginCall \<Rightarrow> bool
    \<Rightarrow> 'pc PreviewCameraPlugin \<times> effect list" where
  "requestAccess_completion startCameraPreview D self c granted =
     (if granted then
        (case previewCamera self of
           None \<Rightarrow> (self, [HideBackground, Resolve Map.empty])
         | Some pc \<Rightarrow>
             (case startCameraPreview (cameraSettings D c) pc of
                (None, pc') \<Rightarrow>
                  (self\<lparr>previewCamera := Some pc'\<rparr>, [HideBackground, Resolve Map.empty])
              | (Some (PreviewCameraError msg), pc') \<Rightarrow>
                  (self\<lparr>previewCamera := Some pc'\<rparr>, [Reject msg])
              | (Some OtherError, pc') \<Rightarrow>
                  (self\<lparr>previewCamera := Some pc'\<rparr>, [Reject ''Unknow error on startPreview''])))
      else (self, []))"

definition stopPreview :: "('pc \<Rightarrow> thrown option \<times> 'pc) \<Rightarrow> 'pc PreviewCameraPlugin
    \<Rightarrow> CAPPluginCall \<Rightarrow> 'pc PreviewCameraPlugin \<times> effect list" where
  "stopPreview stopPreviewCamera self c =
     (case previewCamera self of
        None \<Rightarrow> (self, [Reject ''Preview Camera not initialized''])
      | Some implementation \<Rightarrow>
          (case stopPreviewCamera implementation of
             (None, pc') \<Rightarrow>
               (self\<lparr>previewCamera := Some pc'\<rparr>, [ShowBackground, Resolve Map.empty])
           | (Some (PreviewCameraError msg), pc') \<Rightarrow>
               (self\<lparr>previewCamera := Some pc'\<rparr>, [Reject msg])
           | (Some OtherError, pc') \<Rightarrow>
               (self\<lparr>previewCamera := Some pc'\<rparr>, [Reject ''Unknow error on stopPreview''])))"

definition getFlashModes :: "('pc \<Rightarrow> thrown option \<times> 'pc) \<Rightarrow> 'pc PreviewCameraPlugin
    \<Rightarrow> CAPPluginCall \<Rightarrow> 'pc PreviewCameraPlugin \<times> effect list" where
  "getFlashModes camera_getFlashModes self c =
     (case previewCamera self of
        None \<Rightarrow> (self, [Resolve Map.empty])
      | Some pc \<Rightarrow>
          (case camera_getFlashModes pc of
             (None, pc') \<Rightarrow> (self\<lparr>previewCamera := Some pc'\<rparr>, [Resolve Map.empty])
           | (Some (PreviewCameraError msg), pc') \<Rightarrow>
               (self\<lparr>previewCamera := Some pc'\<rparr>, [Reject msg])
           | (Some OtherError, pc') \<Rightarrow>
               (self\<lparr>previewCamera := Some pc'\<rparr>, [Reject ''Unknow error getFlashModes''])))"

definition setFlashModes :: "('pc \<Rightarrow> thrown option \<times> 'pc) \<Rightarrow> 'pc PreviewCameraPlugin
    \<Rightarrow> CAPPluginCall \<Rightarrow> 'pc PreviewCameraPlugin \<times> effect list" where
  "setFlashModes camera_getFlashModes self c =
     (case previewCamera self of
        None \<Rightarrow> (self, [Resolve Map.empty])
      | Some pc \<Rightarrow>
          (case camera_getFlashModes pc of
             (None, pc') \<Rightarrow> (self\<lparr>previewCamera := Some pc'\<rparr>, [Resolve Map.empty])
           | (Some (PreviewCameraError msg), pc') \<Rightarrow>
               (self\<lparr>previewCamera := Some pc'\<rparr>, [Reject msg])
           | (Some OtherError, pc') \<Rightarrow>
               (self\<lparr>previewCamera := Some pc'\<rparr>, [Reject ''Unknow error setFlashModes''])))"

definition focus :: "(FloatingPoint \<Rightarrow> FloatingPoint \<Rightarrow> 'pc \<Rightarrow> 'pc) \<Rightarrow> 'pc PreviewCameraPlugin
    \<Rightarrow> CAPPluginCall \<Rightarrow> 'pc PreviewCameraPlugin \<times> effect list" where
  "focus camera_focus self c =
     (case getFloat c ''x'' of
        None \<Rightarrow> (self, [Resolve Map.empty])
      | Some x \<Rightarrow>
          (case getFloat c ''y'' of
             None \<Rightarrow> (self, [Resolve Map.empty])
           | Some y \<Rightarrow>
               (self\<lparr>previewCamera := map_option (camera_focus x y) (previewCamera self)\<rparr>, [])))"

text \<open>Whether an effect settles the call.\<close>

fun settles :: "effect \<Rightarrow> bool" where
  "settles (Resolve _) = True"
| "settles (Reject _) = True"
| "settles _ = False"

section \<open>The web implementation\<close>

datatype 'a outcome = Returned 'a | Threw string

text \<open>\<open>echo\<close> writes its argument to the console and returns it.\<close>

definition PreviewCameraWeb_echo :: "JSObject \<Rightarrow> (string \<times> JSObject) list \<times> JSObject outcome" where
  "PreviewCameraWeb_echo opts = ([(''ECHO'', opts)], Returned opts)"

definition PreviewCameraWeb_startPreview :: "unit outcome" where
  "PreviewCameraWeb_startPreview = Threw ''Method not implemented.''"

definition PreviewCameraWeb_stopPreview :: "unit outcome" where
  "PreviewCameraWeb_stopPreview = Threw ''Method not implemented.''"

definition PreviewCameraWeb_takePhoto :: "unit outcome" where
  "PreviewCameraWeb_takePhoto = Threw ''Method not implemented.''"

definition PreviewCameraWeb_capturePhoto :: "unit outcome" where
  "PreviewCameraWeb_capturePhoto = Threw ''Method not implemented.''"

definition PreviewCameraWeb_startRecord :: "unit outcome" where
  "PreviewCameraWeb_startRecord = Threw ''Method not implemented.''"

definition PreviewCameraWeb_stopRecord :: "unit outcome" where
  "PreviewCameraWeb_stopRecord = Threw ''Method not implemented.''"

definition PreviewCameraWeb_flipCamera :: "unit outcome" where
  "PreviewCameraWeb_flipCamera = Threw ''Method not implemented.''"

definition PreviewCameraWeb_getFlashModes :: "JSValue outcome" where
  "PreviewCameraWeb_getFlashModes = Threw ''Method not implemented.''"

definition PreviewCameraWeb_setFlashMode :: "unit outcome" where
  "PreviewCameraWeb_setFlashMode = Threw ''Method not implemented.''"

definition PreviewCameraWeb_isTorchOn :: "JSObject outcome" where
  "PreviewCameraWeb_isTorchOn = Threw ''Method not implemented.''"

definition PreviewCameraWeb_enableTorch :: "JSObject \<Rightarrow> unit outcome" where
  "PreviewCameraWeb_enableTorch _ = Threw ''Method not implemented.''"

section \<open>Capture results and events\<close>

text \<open>
  A capture result has two optional fields; the two events of the plugin carry one
  capture result each.
\<close>

record CaptureResult =
  filePath :: "string option"
  errorMessage :: "string option"

datatype event = captureVideoFinished CaptureResult | capturePhotoFinished CaptureResult

fun payload :: "event \<Rightarrow> CaptureResult" where
  "payload (captureVideoFinished r) = r"
| "payload (capturePhotoFinished r) = r"

definition exactlyOnePopulated :: "CaptureResult \<Rightarrow> bool" where
  "exactlyOnePopulated r = ((filePath r = None) \<noteq> (errorMessage r = None))"

section \<open>The camera session\<close>

text \<open>
  Modelled from the spec: the lifecycle states of the session of the camera object, whose
  class is missing; they are the states of the specification's state machine.
\<close>

datatype SessionState = Idle | Previewing | Capturing | Recording

text \<open>
  Modelled from the spec: the session owned by the missing camera class: its state, the
  device it holds, whether the preview surface is attached, and the events emitted so far.
\<close>

record Session =
  state :: SessionState
  device :: "CameraDirection option"
  previewAttached :: bool
  emitted :: "event list"

text \<open>
  Modelled from the spec: the kinds of error that reject a call; the error type of the
  camera object is missing. Each kind has a message, a parameter of the operations.
\<close>

datatype SessionError =
    PermissionDenied
  | HardwareUnavailable
  | DeviceUnavailable
  | NotInitialized
  | CaptureInProgress
  | RecordingInProgress
  | NotRecording

text \<open>
  Modelled from the spec: the output sink, which is missing. The argument is what
  writing the file gave: the address of the file, or the message of the failure.
\<close>

definition persist :: "string + string \<Rightarrow> CaptureResult" where
  "persist written =
     (case written of
        Inr uri \<Rightarrow> \<lparr>filePath = Some uri, errorMessage = None\<rparr>
      | Inl failure \<Rightarrow> \<lparr>filePath = None, errorMessage = Some failure\<rparr>)"

text \<open>
  Modelled from the spec: \<open>stopPreviewCamera\<close> of the missing camera class. It fails
  with \<open>NotInitialized\<close> when the session is idle and with \<open>CaptureInProgress\<close> in the
  middle of a capture; otherwise it releases the device, detaches the preview surface and
  leaves the session idle.
\<close>

definition spec_stopPreviewCamera :: "(SessionError \<Rightarrow> string) \<Rightarrow> Session \<Rightarrow> thrown option \<times> Session" where
  "spec_stopPreviewCamera message s =
     (case state s of
        Idle \<Rightarrow> (Some (PreviewCameraError (message NotInitialized)), s)
      | Previewing \<Rightarrow> (None, s\<lparr>state := Idle, device := None, previewAttached := False\<rparr>)
      | Capturing \<Rightarrow> (Some (PreviewCameraError (message CaptureInProgress)), s)
      | Recording \<Rightarrow> (Some (PreviewCameraError (message CaptureInProgress)), s))"

text \<open>
  Modelled from the spec: \<open>takePhoto\<close> of the missing camera class (and its twin
  \<open>capturePhoto\<close>). It accepts the request while previewing; where the specification
  names no outcome (a photo requested while recording) the request is refused as a
  capture in progress.
\<close>

definition spec_takePhoto :: "(SessionError \<Rightarrow> string) \<Rightarrow> Session \<Rightarrow> thrown option \<times> Session" where
  "spec_takePhoto message s =
     (case state s of
        Idle \<Rightarrow> (Some (PreviewCameraError (message NotInitialized)), s)
      | Previewing \<Rightarrow> (None, s\<lparr>state := Capturing\<rparr>)
      | Capturing \<Rightarrow> (Some (PreviewCameraError (message CaptureInProgress)), s)
      | Recording \<Rightarrow> (Some (PreviewCameraError (message CaptureInProgress)), s))"

text \<open>
  Modelled from the spec: the completion of a pending photo in the missing camera
  class. The output sink builds the capture result, the event is emitted and the session
  returns to previewing. A completion without a pending photo does nothing.
\<close>

definition spec_photoCompleted :: "string + string \<Rightarrow> Session \<Rightarrow> Session" where
  "spec_photoCompleted written s =
     (if state s = Capturing
      then s\<lparr>state := Previewing, emitted := emitted s @ [capturePhotoFinished (persist written)]\<rparr>
      else s)"

text \<open>
  Modelled from the spec: \<open>startRecord\<close> of the missing camera class; a recording
  requested while a photo is pending is refused as a capture in progress.
\<close>

definition spec_startRecord :: "(SessionError \<Rightarrow> string) \<Rightarrow> Session \<Rightarrow> thrown option \<times> Session" where
  "spec_startRecord message s =
     (case state s of
        Idle \<Rightarrow> (Some (PreviewCameraError (message NotInitialized)), s)
      | Previewing \<Rightarrow> (None, s\<lparr>state := Recording\<rparr>)
      | Capturing \<Rightarrow> (Some (PreviewCameraError (message CaptureInProgress)), s)
      | Recording \<Rightarrow> (Some (PreviewCameraError (message RecordingInProgress)), s))"

text \<open>
  Modelled from the spec: \<open>stopRecord\<close> of the missing camera class. While recording
  it finalises the file through the output sink, emits the event and returns to
  previewing; in any other state it fails.
\<close>

definition spec_stopRecord :: "(SessionError \<Rightarrow> string) \<Rightarrow> string + string \<Rightarrow> Session \<Rightarrow> thrown option \<times> Session" where
  "spec_stopRecord message written s =
     (case state s of
        Idle \<Rightarrow> (Some (PreviewCameraError (message NotInitialized)), s)
      | Previewing \<Rightarrow> (Some (PreviewCameraError (message NotRecording)), s)
      | Capturing \<Rightarrow> (Some (PreviewCameraError (message NotRecording)), s)
      | Recording \<Rightarrow>
          (None, s\<lparr>state := Previewing,
                    emitted := emitted s @ [captureVideoFinished (persist written)]\<rparr>))"

text \<open>
  Modelled from the spec: what can happen to a session, one after the other: the
  operations above, and the completion of a pending photo.
\<close>

datatype command =
    TakePhoto
  | PhotoCompleted "string + string"
  | StartRecord
  | StopRecord "string + string"
  | StopPreviewCamera

text \<open>
  Modelled from the spec: one step of a session of the missing camera class; a rejected
  operation leaves the session as it was.
\<close>

fun session_step :: "(SessionError \<Rightarrow> string) \<Rightarrow> Session \<Rightarrow> command \<Rightarrow> Session" where
  "session_step message s TakePhoto = snd (spec_takePhoto message s)"
| "session_step message s (PhotoCompleted written) = spec_photoCompleted written s"
| "session_step message s StartRecord = snd (spec_startRecord message s)"
| "session_step message s (StopRecord written) = snd (spec_stopRecord message written s)"
| "session_step message s StopPreviewCamera = snd (spec_stopPreviewCamera message s)"

text \<open>
  Modelled from the spec: a session of the missing camera class after a list of steps.
\<close>

fun session_run :: "(SessionError \<Rightarrow> string) \<Rightarrow> Session \<Rightarrow> command list \<Rightarrow> Session" where
  "session_run message s [] = s"
| "session_run message s (x # xs) = session_run message (session_step message s x) xs"

section \<open>Example inputs\<close>

text \<open>Declarations, environments, plugins and calls for evaluating the definitions.\<close>

definition exampleDeclarations :: "string declarations" where
  "exampleDeclarations =
     \<lparr>directionRawValue = (\<lambda>d. case d of rear \<Rightarrow> ''REAR'' | front \<Rightarrow> ''FRONT''),
      resultTypeRawValue = (\<lambda>t. t),
      resultTypeOfRawValue = (\<lambda>s. if s = ''base64'' \<or> s = ''uri'' then Some s else None),
      base64 = ''base64'',
      newCameraSettings =
        \<lparr>jpegQuality = Finite 1, direction = rear, resultType = ''base64'', width = 0, height = 0,
         shouldResize = False, shouldCorrectOrientation = True,
         forcePortraitOrientation = True, mirrorFrontCameraResult = True\<rparr>\<rparr>"

definition exampleKeys :: "(string \<times> string) list" where
  "exampleKeys =
     [(''NSCameraUsageDescription'', ''You are missing NSCameraUsageDescription in your Info.plist file.'')]"

definition completeEnvironment :: "AVAuthorizationStatus \<Rightarrow> environment" where
  "completeEnvironment a =
     \<lparr>allCases = exampleKeys,
      infoDictionary = Some [''NSCameraUsageDescription'' \<mapsto> ''Shows the camera preview''],
      authorizationStatus = a\<rparr>"

definition bareEnvironment :: "AVAuthorizationStatus \<Rightarrow> environment" where
  "bareEnvironment a =
     \<lparr>allCases = exampleKeys, infoDictionary = Some Map.empty, authorizationStatus = a\<rparr>"

definition simulatorPlugin :: "unit PreviewCameraPlugin" where
  "simulatorPlugin =
     \<lparr>call = None, previewCamera = Some (), bridge = Some \<lparr>isSimEnvironment = True\<rparr>\<rparr>"

definition devicePlugin :: "unit PreviewCameraPlugin" where
  "devicePlugin =
     \<lparr>call = None, previewCamera = Some (), bridge = Some \<lparr>isSimEnvironment = False\<rparr>\<rparr>"

definition emptyCall :: CAPPluginCall where
  "emptyCall = \<lparr>options = Map.empty\<rparr>"

definition previewingSession :: Session where
  "previewingSession =
     \<lparr>state = Previewing, device = Some rear, previewAttached = True, emitted = []\<rparr>"

definition sessionPlugin :: "Session PreviewCameraPlugin" where
  "sessionPlugin =
     \<lparr>call = None, previewCamera = Some previewingSession,
      bridge = Some \<lparr>isSimEnvironment = False\<rparr>\<rparr>"

definition exampleMessage :: "SessionError \<Rightarrow> string" where
  "exampleMessage e =
     (case e of
        NotInitialized \<Rightarrow> ''Camera preview is not started''
      | CaptureInProgress \<Rightarrow> ''A capture is in progress''
      | RecordingInProgress \<Rightarrow> ''A recording is in progress''
      | NotRecording \<Rightarrow> ''No recording to stop''
      | _ \<Rightarrow> ''Camera is not available'')"

definition halfwayCall :: CAPPluginCall where
  "halfwayCall =
     \<lparr>options = [''x'' \<mapsto> JSNumber (Finite (1 / 2)), ''y'' \<mapsto> JSNumber (Finite (1 / 2))]\<rparr>"

definition greetingCall :: CAPPluginCall where
  "greetingCall = \<lparr>options = [''value'' \<mapsto> JSString ''hello'']\<rparr>"

section \<open>Properties of the settings\<close>












text \<open>
  C4: when a fresh \<open>CameraSettings()\<close> does not ask for resizing, the settings of
  every call satisfy \<open>shouldResize = (width > 0 \<or> height > 0)\<close>.
\<close>

theorem cameraSettings_shouldResize:
  "\<not> shouldResize (newCameraSettings D) \<Longrightarrow>
     shouldResize (cameraSettings D c)
       = (0 < width (cameraSettings D c) \<or> 0 < height (cameraSettings D c))"
  by (simp add: cameraSettings_def Let_def)



theorem cameraSettings_shouldResize_witness:
  "\<not> shouldResize (newCameraSettings exampleDeclarations)
   \<and> shouldResize (cameraSettings exampleDeclarations \<lparr>options = [''width'' \<mapsto> JSNumber (Finite 640)]\<rparr>)
   \<and> 0 < width (cameraSettings exampleDeclarations \<lparr>options = [''width'' \<mapsto> JSNumber (Finite 640)]\<rparr>)"
proof -
  have h: "\<not> shouldResize (newCameraSettings exampleDeclarations)"
    by (simp add: exampleDeclarations_def)
  have w: "0 < width (cameraSettings exampleDeclarations \<lparr>options = [''width'' \<mapsto> JSNumber (Finite 640)]\<rparr>)"
    by (simp add: cameraSettings_def Let_def getInt_def)
  from h w cameraSettings_shouldResize [OF h, of "\<lparr>options = [''width'' \<mapsto> JSNumber (Finite 640)]\<rparr>"]
  show ?thesis by simp
qed

section \<open>Properties of startPreview\<close>

text \<open>
  C1 (as amended): for every \<open>startPreview\<close> for which no usage description is
  missing, in an environment whose bridge reports a simulator, the call is rejected with
  the message \<open>Camera not available while running in Simulator\<close> (the specification's
  \<open>HardwareUnavailable\<close>), after one log line and one alert; the camera object is left
  as it was, so no device is acquired and no preview is attached.
\<close>

theorem startPreview_simulator:
  assumes "checkUsageDescriptions env = None" and "bridge self = Some b" and "isSimEnvironment b"
  shows "startPreview env self c =
           (self\<lparr>call := Some c\<rparr>,
            [Log ''Camera not available in simulator'',
             Alert ''Camera Error'' ''Camera not available in Simulator'',
             Reject ''Camera not available while running in Simulator''])
         \<and> previewCamera (fst (startPreview env self c)) = previewCamera self"
  using assms by (simp add: startPreview_def alert_def)

theorem startPreview_simulator_witness:
  "checkUsageDescriptions (completeEnvironment restricted) = None
   \<and> bridge simulatorPlugin = Some \<lparr>isSimEnvironment = True\<rparr>
   \<and> snd (startPreview (completeEnvironment restricted) simulatorPlugin emptyCall) =
        [Log ''Camera not available in simulator'',
         Alert ''Camera Error'' ''Camera not available in Simulator'',
         Reject ''Camera not available while running in Simulator'']
   \<and> previewCamera (fst (startPreview (completeEnvironment restricted) simulatorPlugin emptyCall)) = Some ()"
proof -
  have u: "checkUsageDescriptions (completeEnvironment restricted) = None"
    by (simp add: checkUsageDescriptions_def completeEnvironment_def exampleKeys_def)
  have b: "bridge simulatorPlugin = Some \<lparr>isSimEnvironment = True\<rparr>"
    by (simp add: simulatorPlugin_def)
  have s: "isSimEnvironment \<lparr>isSimEnvironment = True\<rparr>" by simp
  have p: "previewCamera simulatorPlugin = Some ()" by (simp add: simulatorPlugin_def)
  from startPreview_simulator [OF u b s, of emptyCall] u b p show ?thesis by simp
qed

text \<open>
  With a usage description missing, the same call in a simulator is rejected with the
  message of the missing key, and the simulator message is never sent.
\<close>

theorem startPreview_simulator_counterexample:
  "(case bridge simulatorPlugin of Some b \<Rightarrow> isSimEnvironment b | None \<Rightarrow> False)
   \<and> snd (startPreview (bareEnvironment authorized) simulatorPlugin emptyCall) =
        [Log ''You are missing NSCameraUsageDescription in your Info.plist file.'',
         Reject ''You are missing NSCameraUsageDescription in your Info.plist file.'',
         Alert ''Camera Error''
           ''Missing required usage description. See console for more information'']
   \<and> Reject ''Camera not available while running in Simulator''
        \<notin> set (snd (startPreview (bareEnvironment authorized) simulatorPlugin emptyCall))"
  by (simp add: startPreview_def alert_def checkUsageDescriptions_def bareEnvironment_def
      exampleKeys_def simulatorPlugin_def)

text \<open>
  C2 (as amended): for every \<open>startPreview\<close> for which no usage description is
  missing and whose bridge reports no simulator: when the authorization is restricted or
  denied, the call is rejected with the message \<open>User denied access to camera\<close> (the
  specification's \<open>PermissionDenied\<close>) and nothing else happens; otherwise access is
  requested and the call is neither resolved nor rejected before the completion handler
  runs. In both cases the camera object is left as it was. The completion handler settles
  the call when access is granted.
\<close>

theorem startPreview_permission:
  assumes "checkUsageDescriptions env = None"
    and "\<not> (case bridge self of Some b \<Rightarrow> isSimEnvironment b | None \<Rightarrow> False)"
  shows "(authorizationStatus env = restricted \<or> authorizationStatus env = denied \<longrightarrow>
            startPreview env self c = (self\<lparr>call := Some c\<rparr>, [Reject ''User denied access to camera'']))
         \<and> (authorizationStatus env = notDetermined \<or> authorizationStatus env = authorized \<longrightarrow>
            startPreview env self c = (self\<lparr>call := Some c\<rparr>, [RequestAccess]))
         \<and> previewCamera (fst (startPreview env self c)) = previewCamera self
         \<and> list_ex settles (snd (requestAccess_completion startCameraPreview D self' c True))"
proof -
  have settled: "list_ex settles (snd (requestAccess_completion startCameraPreview D self' c True))"
    by (simp add: requestAccess_completion_def split: option.split prod.split thrown.split)
  from assms settled show ?thesis
    by (auto simp add: startPreview_def Let_def)
qed

theorem startPreview_permission_witness:
  "snd (startPreview (completeEnvironment denied) devicePlugin emptyCall)
      = [Reject ''User denied access to camera'']
   \<and> snd (startPreview (completeEnvironment notDetermined) devicePlugin emptyCall) = [RequestAccess]
   \<and> list_ex settles
        (snd (requestAccess_completion (\<lambda>settings pc. (None, pc)) exampleDeclarations
                devicePlugin emptyCall True))"
proof -
  have u: "checkUsageDescriptions (completeEnvironment a) = None" for a
    by (simp add: checkUsageDescriptions_def completeEnvironment_def exampleKeys_def)
  have b: "\<not> (case bridge devicePlugin of Some b \<Rightarrow> isSimEnvironment b | None \<Rightarrow> False)"
    by (simp add: devicePlugin_def)
  have d: "authorizationStatus (completeEnvironment a) = a" for a
    by (simp add: completeEnvironment_def)
  note t = startPreview_permission [where c = emptyCall and D = exampleDeclarations
      and self' = devicePlugin and startCameraPreview = "\<lambda>settings pc. (None, pc)", OF u b]
  from t [of denied] t [of notDetermined] d show ?thesis by simp
qed

text \<open>
  In a simulator a denied authorization is never looked at: the call is rejected with the
  simulator message.
\<close>

theorem startPreview_permission_counterexample:
  "authorizationStatus (completeEnvironment denied) = denied
   \<and> snd (startPreview (completeEnvironment denied) simulatorPlugin emptyCall) =
        [Log ''Camera not available in simulator'',
         Alert ''Camera Error'' ''Camera not available in Simulator'',
         Reject ''Camera not available while running in Simulator'']
   \<and> Reject ''User denied access to camera''
        \<notin> set (snd (startPreview (completeEnvironment denied) simulatorPlugin emptyCall))"
  by (simp add: startPreview_def alert_def checkUsageDescriptions_def completeEnvironment_def
      exampleKeys_def simulatorPlugin_def)


section \<open>Properties of focus\<close>

text \<open>
  C5: what \<open>focus\<close> does with a call that carries both coordinates: they are handed
  to the camera object as they are, and the call is neither resolved nor rejected. So
  the call never fails, but it does not complete either.
\<close>

theorem focus_leaves_call_unsettled:
  assumes "getFloat c ''x'' = Some x" and "getFloat c ''y'' = Some y"
  shows "focus camera_focus self c =
           (self\<lparr>previewCamera := map_option (camera_focus x y) (previewCamera self)\<rparr>, [])"
  using assms by (simp add: focus_def)

theorem focus_leaves_call_unsettled_witness:
  "getFloat halfwayCall ''x'' = Some (Finite (1 / 2))
   \<and> getFloat halfwayCall ''y'' = Some (Finite (1 / 2))
   \<and> snd (focus (\<lambda>x y pc. pc) devicePlugin halfwayCall) = []
   \<and> \<not> list_ex settles (snd (focus (\<lambda>x y pc. pc) devicePlugin halfwayCall))"
proof -
  have x: "getFloat halfwayCall ''x'' = Some (Finite (1 / 2))"
    by (simp add: getFloat_def halfwayCall_def)
  have y: "getFloat halfwayCall ''y'' = Some (Finite (1 / 2))"
    by (simp add: getFloat_def halfwayCall_def)
  from focus_leaves_call_unsettled [OF x y, of "\<lambda>x y pc. pc" devicePlugin] x y
  show ?thesis by simp
qed

section \<open>Properties of stopPreview\<close>

lemma stopPreview_thrown:
  assumes "previewCamera self = Some s"
    and "stopPreviewCamera s = (Some (PreviewCameraError msg), s)"
  shows "stopPreview stopPreviewCamera self c = (self, [Reject msg])"
  using assms by (cases self) (simp add: stopPreview_def)

lemma stopPreview_resolved:
  assumes "Resolve Map.empty \<in> set (snd (stopPreview (spec_stopPreviewCamera message) self c))"
  shows "\<exists>s. previewCamera (fst (stopPreview (spec_stopPreviewCamera message) self c)) = Some s
            \<and> state s = Idle"
proof (cases "previewCamera self")
  case None
  with assms show ?thesis by (simp add: stopPreview_def)
next
  case (Some s)
  with assms show ?thesis
    by (cases "state s") (simp_all add: stopPreview_def spec_stopPreviewCamera_def)
qed

text \<open>
  C6: \<open>stopPreview\<close> of the plugin, over \<open>stopPreviewCamera\<close> as the specification
  describes it. Without a camera object the call is rejected as not initialized, whatever
  the camera class does. With an idle session the call is rejected with the message of
  \<open>NotInitialized\<close>, and plugin and session stay as they were: nothing is released or
  detached. And whenever a \<open>stopPreview\<close> has resolved, the next \<open>stopPreview\<close> is
  rejected with the message of \<open>NotInitialized\<close> and changes nothing.
\<close>

theorem stopPreview_NotInitialized:
  "(previewCamera self = None \<longrightarrow>
      stopPreview stopPreviewCamera self c = (self, [Reject ''Preview Camera not initialized'']))
   \<and> (previewCamera self = Some s \<and> state s = Idle \<longrightarrow>
      stopPreview (spec_stopPreviewCamera message) self c = (self, [Reject (message NotInitialized)]))
   \<and> (Resolve Map.empty \<in> set (snd (stopPreview (spec_stopPreviewCamera message) self c)) \<longrightarrow>
      stopPreview (spec_stopPreviewCamera message)
          (fst (stopPreview (spec_stopPreviewCamera message) self c)) c'
        = (fst (stopPreview (spec_stopPreviewCamera message) self c),
           [Reject (message NotInitialized)]))"
proof -
  have absent: "previewCamera self = None \<longrightarrow>
      stopPreview stopPreviewCamera self c = (self, [Reject ''Preview Camera not initialized''])"
    by (simp add: stopPreview_def)
  have idle: "stopPreview (spec_stopPreviewCamera message) p k = (p, [Reject (message NotInitialized)])"
    if "previewCamera p = Some t" and "state t = Idle" for p t k
  proof -
    from that(2) have "spec_stopPreviewCamera message t
        = (Some (PreviewCameraError (message NotInitialized)), t)"
      by (simp add: spec_stopPreviewCamera_def)
    with that(1) show ?thesis by (rule stopPreview_thrown)
  qed
  have again: "stopPreview (spec_stopPreviewCamera message)
          (fst (stopPreview (spec_stopPreviewCamera message) self c)) c'
        = (fst (stopPreview (spec_stopPreviewCamera message) self c),
           [Reject (message NotInitialized)])"
    if "Resolve Map.empty \<in> set (snd (stopPreview (spec_stopPreviewCamera message) self c))"
    using stopPreview_resolved [OF that] idle by blast
  from absent idle again show ?thesis by blast
qed

theorem stopPreview_NotInitialized_witness:
  "snd (stopPreview (spec_stopPreviewCamera exampleMessage) sessionPlugin emptyCall)
      = [ShowBackground, Resolve Map.empty]
   \<and> snd (stopPreview (spec_stopPreviewCamera exampleMessage)
        (fst (stopPreview (spec_stopPreviewCamera exampleMessage) sessionPlugin emptyCall)) emptyCall)
      = [Reject ''Camera preview is not started'']"
proof -
  have first: "snd (stopPreview (spec_stopPreviewCamera exampleMessage) sessionPlugin emptyCall)
      = [ShowBackground, Resolve Map.empty]"
    by (simp add: stopPreview_def spec_stopPreviewCamera_def sessionPlugin_def previewingSession_def)
  have m: "exampleMessage NotInitialized = ''Camera preview is not started''"
    by (simp add: exampleMessage_def)
  from stopPreview_NotInitialized [of sessionPlugin _ emptyCall _ exampleMessage emptyCall] first m
  show ?thesis by simp
qed


section \<open>Properties of the flash methods\<close>

text \<open>
  C7 (as amended): \<open>setFlashModes\<close> does not look at its call; it runs the same
  query of the camera object as \<open>getFlashModes\<close> and leaves the plugin in the same
  state. The two methods do the same whenever the query returns or throws a
  \<open>PreviewCameraError\<close>. When the query throws any other error, both reject, each with
  a message that names its own method.
\<close>

theorem setFlashModes_getFlashModes:
  "setFlashModes query self c = setFlashModes query self c'
   \<and> fst (setFlashModes query self c) = fst (getFlashModes query self c')
   \<and> ((\<forall>pc. previewCamera self = Some pc \<longrightarrow> fst (query pc) \<noteq> Some OtherError) \<longrightarrow>
        setFlashModes query self c = getFlashModes query self c')
   \<and> (previewCamera self = Some pc \<and> fst (query pc) = Some OtherError \<longrightarrow>
        snd (setFlashModes query self c) = [Reject ''Unknow error setFlashModes'']
        \<and> snd (getFlashModes query self c') = [Reject ''Unknow error getFlashModes''])"
proof -
  have ignored: "setFlashModes query self c = setFlashModes query self c'"
    by (simp add: setFlashModes_def)
  have same_state: "fst (setFlashModes query self c) = fst (getFlashModes query self c')"
    by (simp add: setFlashModes_def getFlashModes_def
        split: option.split prod.split thrown.split)
  have same: "setFlashModes query self c = getFlashModes query self c'"
    if "\<forall>pc. previewCamera self = Some pc \<longrightarrow> fst (query pc) \<noteq> Some OtherError"
    using that by (auto simp add: setFlashModes_def getFlashModes_def
        split: option.split prod.split thrown.split)
  have differ: "snd (setFlashModes query self c) = [Reject ''Unknow error setFlashModes'']
        \<and> snd (getFlashModes query self c') = [Reject ''Unknow error getFlashModes'']"
    if "previewCamera self = Some pc" and "fst (query pc) = Some OtherError"
    using that by (cases "query pc") (simp add: setFlashModes_def getFlashModes_def)
  from ignored same_state same differ show ?thesis by blast
qed

theorem setFlashModes_getFlashModes_witness:
  "setFlashModes (\<lambda>pc. (Some (PreviewCameraError ''Flash is not available''), pc)) devicePlugin halfwayCall
     = getFlashModes (\<lambda>pc. (Some (PreviewCameraError ''Flash is not available''), pc)) devicePlugin emptyCall
   \<and> snd (setFlashModes (\<lambda>pc. (Some OtherError, pc)) devicePlugin halfwayCall)
        = [Reject ''Unknow error setFlashModes'']
   \<and> snd (getFlashModes (\<lambda>pc. (Some OtherError, pc)) devicePlugin emptyCall)
        = [Reject ''Unknow error getFlashModes'']"
proof -
  have a: "\<forall>pc. previewCamera devicePlugin = Some pc \<longrightarrow>
      fst (Some (PreviewCameraError ''Flash is not available''), pc) \<noteq> Some OtherError"
    by simp
  have b: "previewCamera devicePlugin = Some () \<and> fst (Some OtherError, ()) = Some OtherError"
    by (simp add: devicePlugin_def)
  note known = setFlashModes_getFlashModes
         [of "\<lambda>pc. (Some (PreviewCameraError ''Flash is not available''), pc)"
             devicePlugin halfwayCall emptyCall "()"]
  note other = setFlashModes_getFlashModes
         [of "\<lambda>pc. (Some OtherError, pc)" devicePlugin halfwayCall emptyCall "()"]
  from known a have "setFlashModes (\<lambda>pc. (Some (PreviewCameraError ''Flash is not available''), pc)) devicePlugin halfwayCall
     = getFlashModes (\<lambda>pc. (Some (PreviewCameraError ''Flash is not available''), pc)) devicePlugin emptyCall"
    by blast
  moreover from other b have "snd (setFlashModes (\<lambda>pc. (Some OtherError, pc)) devicePlugin halfwayCall)
        = [Reject ''Unknow error setFlashModes'']
   \<and> snd (getFlashModes (\<lambda>pc. (Some OtherError, pc)) devicePlugin emptyCall)
        = [Reject ''Unknow error getFlashModes'']"
    by blast
  ultimately show ?thesis by blast
qed

text \<open>
  The two methods differ when the query throws an error that is no
  \<open>PreviewCameraError\<close>.
\<close>

theorem setFlashModes_getFlashModes_counterexample:
  "snd (setFlashModes (\<lambda>pc. (Some OtherError, pc)) devicePlugin emptyCall)
     = [Reject ''Unknow error setFlashModes'']
   \<and> snd (getFlashModes (\<lambda>pc. (Some OtherError, pc)) devicePlugin emptyCall)
     = [Reject ''Unknow error getFlashModes'']
   \<and> setFlashModes (\<lambda>pc. (Some OtherError, pc)) devicePlugin emptyCall
     \<noteq> getFlashModes (\<lambda>pc. (Some OtherError, pc)) devicePlugin emptyCall"
  by (simp add: setFlashModes_def getFlashModes_def devicePlugin_def)

section \<open>Properties of the emitted events\<close>

lemma exactlyOnePopulated_persist: "exactlyOnePopulated (persist written)"
  by (cases written) (simp_all add: persist_def exactlyOnePopulated_def)

lemma session_step_emitted:
  assumes "list_all (\<lambda>e. exactlyOnePopulated (payload e)) (emitted s)"
  shows "list_all (\<lambda>e. exactlyOnePopulated (payload e)) (emitted (session_step message s x))"
proof (cases x)
  case TakePhoto
  with assms show ?thesis by (cases "state s") (simp_all add: spec_takePhoto_def)
next
  case (PhotoCompleted written)
  with assms show ?thesis by (simp add: spec_photoCompleted_def exactlyOnePopulated_persist)
next
  case StartRecord
  with assms show ?thesis by (cases "state s") (simp_all add: spec_startRecord_def)
next
  case (StopRecord written)
  with assms show ?thesis
    by (cases "state s") (simp_all add: spec_stopRecord_def exactlyOnePopulated_persist)
next
  case StopPreviewCamera
  with assms show ?thesis by (cases "state s") (simp_all add: spec_stopPreviewCamera_def)
qed

text \<open>
  C8: in a session as the specification describes it, if every event emitted so far
  carries a capture result with exactly one of \<open>filePath\<close> and \<open>errorMessage\<close>
  populated, then so does every event emitted after any list of steps. In particular
  this holds for every run of a session that has emitted nothing yet.
\<close>

theorem emitted_exactlyOnePopulated:
  "list_all (\<lambda>e. exactlyOnePopulated (payload e)) (emitted s) \<Longrightarrow>
     list_all (\<lambda>e. exactlyOnePopulated (payload e)) (emitted (session_run message s cmds))"
proof (induction cmds arbitrary: s)
  case Nil
  then show ?case by simp
next
  case (Cons x xs)
  from Cons.prems have "list_all (\<lambda>e. exactlyOnePopulated (payload e))
      (emitted (session_step message s x))"
    by (rule session_step_emitted)
  then show ?case by (simp add: Cons.IH)
qed

theorem emitted_exactlyOnePopulated_witness:
  "list_all (\<lambda>e. exactlyOnePopulated (payload e)) (emitted previewingSession)
   \<and> emitted (session_run exampleMessage previewingSession
        [TakePhoto, PhotoCompleted (Inr ''file:///photo.jpg''), StartRecord,
         StopRecord (Inl ''The disk is full'')])
      = [capturePhotoFinished \<lparr>filePath = Some ''file:///photo.jpg'', errorMessage = None\<rparr>,
         captureVideoFinished \<lparr>filePath = None, errorMessage = Some ''The disk is full''\<rparr>]
   \<and> list_all (\<lambda>e. exactlyOnePopulated (payload e))
        (emitted (session_run exampleMessage previewingSession
          [TakePhoto, PhotoCompleted (Inr ''file:///photo.jpg''), StartRecord,
           StopRecord (Inl ''The disk is full'')]))"
proof -
  have h: "list_all (\<lambda>e. exactlyOnePopulated (payload e)) (emitted previewingSession)"
    by (simp add: previewingSession_def)
  have r: "emitted (session_run exampleMessage previewingSession
        [TakePhoto, PhotoCompleted (Inr ''file:///photo.jpg''), StartRecord,
         StopRecord (Inl ''The disk is full'')])
      = [capturePhotoFinished \<lparr>filePath = Some ''file:///photo.jpg'', errorMessage = None\<rparr>,
         captureVideoFinished \<lparr>filePath = None, errorMessage = Some ''The disk is full''\<rparr>]"
    by (simp add: previewingSession_def spec_takePhoto_def spec_photoCompleted_def
        spec_startRecord_def spec_stopRecord_def persist_def)
  from h r emitted_exactlyOnePopulated [OF h, of exampleMessage
      "[TakePhoto, PhotoCompleted (Inr ''file:///photo.jpg''), StartRecord,
        StopRecord (Inl ''The disk is full'')]"]
  show ?thesis by blast
qed

section \<open>Properties of echo\<close>

text \<open>
  C9 (as amended): on the web, \<open>echo\<close> returns its argument unchanged, for every
  argument. On the native plugin with a camera object, \<open>echo\<close> resolves with an object
  that has the one key \<open>value\<close>, holding what the camera object's \<open>echo\<close> returns
  for the string under \<open>value\<close> in the argument, or for the empty string when there is
  no string under that key. So when the argument is exactly \<open>{value: v}\<close> and the
  camera object's \<open>echo\<close> returns \<open>v\<close> for \<open>v\<close>, the native result is the argument.
\<close>

theorem echo_returns_value:
  "snd (PreviewCameraWeb_echo opts) = Returned opts
   \<and> (previewCamera self = Some pc \<longrightarrow>
        echo camera_echo self c =
          (self, [Resolve [''value'' \<mapsto> JSString
             (camera_echo (case getString c ''value'' of Some s \<Rightarrow> s | None \<Rightarrow> ''''))]]))
   \<and> (previewCamera self = Some pc \<and> options c = [''value'' \<mapsto> JSString v] \<and> camera_echo v = v \<longrightarrow>
        echo camera_echo self c = (self, [Resolve (options c)]))"
  by (simp add: PreviewCameraWeb_echo_def echo_def getString_def)

theorem echo_returns_value_witness:
  "echo (\<lambda>v. v) devicePlugin greetingCall = (devicePlugin, [Resolve (options greetingCall)])
   \<and> snd (PreviewCameraWeb_echo (options greetingCall)) = Returned (options greetingCall)"
proof -
  have p: "previewCamera devicePlugin = Some ()" by (simp add: devicePlugin_def)
  have o: "options greetingCall = [''value'' \<mapsto> JSString ''hello'']" by (simp add: greetingCall_def)
  from echo_returns_value [of "options greetingCall" devicePlugin "()" "\<lambda>v. v" greetingCall "''hello''"]
    p o show ?thesis by blast
qed

text \<open>
  For an argument without the key \<open>value\<close> the native plugin resolves with
  \<open>{value: ""}\<close>, which is not the argument.
\<close>

theorem echo_returns_value_counterexample:
  "snd (echo (\<lambda>v. v) devicePlugin emptyCall) = [Resolve [''value'' \<mapsto> JSString '''']]
   \<and> [''value'' \<mapsto> JSString ''''] \<noteq> options emptyCall"
  by (simp add: echo_def getString_def devicePlugin_def emptyCall_def)

section \<open>Properties of the web implementation\<close>

text \<open>
  C10: on the web, each of \<open>startPreview\<close>, \<open>stopPreview\<close>, \<open>takePhoto\<close>,
  \<open>capturePhoto\<close>, \<open>startRecord\<close>, \<open>stopRecord\<close>, \<open>flipCamera\<close>,
  \<open>getFlashModes\<close>, \<open>setFlashMode\<close>, \<open>isTorchOn\<close> and \<open>enableTorch\<close> (for every
  argument) throws an error with the message \<open>Method not implemented.\<close>
\<close>

theorem PreviewCameraWeb_not_implemented:
  "PreviewCameraWeb_startPreview = Threw ''Method not implemented.''
   \<and> PreviewCameraWeb_stopPreview = Threw ''Method not implemented.''
   \<and> PreviewCameraWeb_takePhoto = Threw ''Method not implemented.''
   \<and> PreviewCameraWeb_capturePhoto = Threw ''Method not implemented.''
   \<and> PreviewCameraWeb_startRecord = Threw ''Method not implemented.''
   \<and> PreviewCameraWeb_stopRecord = Threw ''Method not implemented.''
   \<and> PreviewCameraWeb_flipCamera = Threw ''Method not implemented.''
   \<and> PreviewCameraWeb_getFlashModes = Threw ''Method not implemented.''
   \<and> PreviewCameraWeb_setFlashMode = Threw ''Method not implemented.''
   \<and> PreviewCameraWeb_isTorchOn = Threw ''Method not implemented.''
   \<and> (\<forall>opts. PreviewCameraWeb_enableTorch opts = Threw ''Method not implemented.'')"
  by (simp add: PreviewCameraWeb_startPreview_def PreviewCameraWeb_stopPreview_def
      PreviewCameraWeb_takePhoto_def PreviewCameraWeb_capturePhoto_def
      PreviewCameraWeb_startRecord_def PreviewCameraWeb_stopRecord_def
      PreviewCameraWeb_flipCamera_def PreviewCameraWeb_getFlashModes_def
      PreviewCameraWeb_setFlashMode_def PreviewCameraWeb_isTorchOn_def
      PreviewCameraWeb_enableTorch_def)

end
